theory Spec2Isabelle
  imports Main
begin

section \<open>Task registry: data model\<close>

text \<open>
  The task registry is the JSON document \<^verbatim>\<open>AGENT_REGISTRY.json\<close> that
  \<^verbatim>\<open>create_real_task\<close> writes and every other tool reads, updates in memory and writes
  back. An entry of its \<^verbatim>\<open>agents\<close> array is the object literal built by
  \<^verbatim>\<open>deploy_headless_agent\<close>; \<^verbatim>\<open>update_agent_progress\<close> and \<^verbatim>\<open>kill_real_agent\<close>
  add the optional fields. JavaScript numbers that hold counters are modelled as \<open>int\<close>,
  an absent field as \<open>None\<close>. The field \<^verbatim>\<open>id\<close> is called \<open>agent_id\<close>, \<^verbatim>\<open>type\<close> is
  \<open>agent_type\<close> and the registry's \<^verbatim>\<open>status\<close> is \<open>task_status\<close>.

  The registry keeps the fields the handlers compute with. The three ceilings and the
  three counters are always present in a registry that \<^verbatim>\<open>create_real_task\<close> wrote, so
  the handlers' fallbacks for an absent ceiling or counter are not modelled. Time stamps,
  the random part of an id and the answers of tmux are inputs of the handlers. Calls are
  taken one at a time, each from its first read of the registry to its last write.
\<close>

record agent =
  agent_id :: string
  agent_type :: string
  parent :: string
  depth :: int
  status :: string
  started_at :: string
  progress :: int
  tmux_session :: "string option"
  last_update :: "string option"
  terminated_at :: "string option"
  termination_reason :: "string option"

record registry =
  task_id :: string
  task_description :: string
  task_status :: string
  priority :: string
  agents :: "agent list"
  agent_hierarchy :: "(string \<times> string list) list"
  max_agents :: int
  max_depth :: int
  max_concurrent :: int
  total_spawned :: int
  active_count :: int
  completed_count :: int

text \<open>
  What a handler does to the outside world, in the order it does it. The registry file
  changes only through \<open>WriteRegistry\<close> (\<^verbatim>\<open>writeJsonFile(registryPath, registry)\<close>).
  \<open>AppendLine path entry\<close> is \<^verbatim>\<open>fs.appendFileSync(path, JSON.stringify(entry) + '\n')\<close>.
\<close>

datatype json =
    JNull
  | JBool bool
  | JNum int
  | JStr string
  | JArr "json list"
  | JObj "(string \<times> json) list"

datatype effect =
    WritePromptFile string bool
  | CreateSession string
  | KillSession string
  | AppendLine string json
  | WriteRegistry registry

fun persisted :: "registry option \<Rightarrow> effect list \<Rightarrow> registry option" where
  "persisted regfile [] = regfile"
| "persisted regfile (WriteRegistry r # es) = persisted (Some r) es"
| "persisted regfile (_ # es) = persisted regfile es"



section \<open>deploy\_headless\_agent\<close>

record deploy_input =
  d_agent_type :: string
  d_prompt :: string
  d_parent :: string

record tmux_result =
  success :: bool
  error :: "string option"

record deploy_payload =
  p_agent_id :: string
  p_tmux_session :: string
  p_type :: string
  p_parent :: string
  p_status :: string

datatype deploy_error =
    TmuxUnavailable
  | TaskNotFound
  | TooManyActiveAgents int int
  | MaxAgentsReached int int
  | SessionCreationFailure string

text \<open>
  The depth of the new agent (lines 151 to 157 of the handler): 1 under the root sentinel,
  2 otherwise, replaced by the depth of the first registry entry whose id is the parent,
  plus one; \<^verbatim>\<open>Number(a.depth || 1)\<close> reads a depth of 0 as 1.
\<close>

fun scan_parent :: "agent list \<Rightarrow> string \<Rightarrow> int \<Rightarrow> int" where
  "scan_parent [] p d = d"
| "scan_parent (a # as) p d =
     (if agent_id a = p then (if depth a = 0 then 1 else depth a) + 1
      else scan_parent as p d)"

definition compute_depth :: "registry \<Rightarrow> string \<Rightarrow> int" where
  "compute_depth reg p =
     scan_parent (agents reg) p (if p = ''orchestrator'' then 1 else 2)"

text \<open>
  \<^verbatim>\<open>createOrchestrationGuidancePrompt\<close> is the only reader of \<^verbatim>\<open>maxDepth\<close>: it
  replaces the guidance text by a warning banner when \<^verbatim>\<open>currentDepth >= maxDepth - 1\<close>.
  The banner is part of the prompt file; the rest of the prompt text is not modelled.
\<close>

definition depth_limit_banner :: "int \<Rightarrow> int \<Rightarrow> bool" where
  "depth_limit_banner currentDepth maxDepth \<longleftrightarrow> currentDepth \<ge> maxDepth - 1"

definition new_agent_id :: "string \<Rightarrow> string \<Rightarrow> string \<Rightarrow> string" where
  "new_agent_id ty clock rnd = ty @ ''-'' @ clock @ ''-'' @ rnd"

definition agentEntry :: "string \<Rightarrow> deploy_input \<Rightarrow> int \<Rightarrow> string \<Rightarrow> agent" where
  "agentEntry agentId inp d now =
     \<lparr> agent_id = agentId, agent_type = d_agent_type inp, parent = d_parent inp,
       depth = d, status = ''running'', started_at = now, progress = 0,
       tmux_session = Some (''agent_'' @ agentId), last_update = None,
       terminated_at = None, termination_reason = None \<rparr>"

text \<open>
  The handler. Its inputs from outside are: whether tmux is installed, the registry
  file (\<open>None\<close> when it does not exist), the clock and random digits of the new id, the
  time stamp, and the result of \<^verbatim>\<open>createTmuxSession\<close>, which is only consulted once
  the two limit checks have passed.
\<close>

definition deployHeadlessAgent ::
  "bool \<Rightarrow> registry option \<Rightarrow> string \<Rightarrow> string \<Rightarrow> string \<Rightarrow> tmux_result \<Rightarrow> deploy_input
    \<Rightarrow> (deploy_error + deploy_payload) \<times> effect list" where
  "deployHeadlessAgent tmuxAvailable regfile clock rnd now tmux inp =
     (if \<not> tmuxAvailable then (Inl TmuxUnavailable, [])
      else case regfile of
        None \<Rightarrow> (Inl TaskNotFound, [])
      | Some reg \<Rightarrow>
          if active_count reg \<ge> max_concurrent reg
          then (Inl (TooManyActiveAgents (active_count reg) (max_concurrent reg)), [])
          else if total_spawned reg \<ge> max_agents reg
          then (Inl (MaxAgentsReached (total_spawned reg) (max_agents reg)), [])
          else
            let agentId = new_agent_id (d_agent_type inp) clock rnd;
                sessionName = ''agent_'' @ agentId;
                d = compute_depth reg (d_parent inp);
                promptFile = ''agent_prompt_'' @ agentId @ ''.txt'';
                before = [WritePromptFile promptFile (depth_limit_banner d (max_depth reg)),
                          CreateSession sessionName]
            in if \<not> success tmux
               then (Inl (SessionCreationFailure
                            (case error tmux of
                               None \<Rightarrow> ''Failed to create tmux session''
                             | Some e \<Rightarrow> if e = [] then ''Failed to create tmux session'' else e)),
                     before)
               else
                 let reg' = reg \<lparr> agents := agents reg @ [agentEntry agentId inp d now],
                                  total_spawned := total_spawned reg + 1,
                                  active_count := active_count reg + 1 \<rparr>
                 in (Inr \<lparr> p_agent_id = agentId, p_tmux_session = sessionName,
                           p_type = d_agent_type inp, p_parent = d_parent inp,
                           p_status = ''deployed'' \<rparr>,
                     before @ [WriteRegistry reg']))"

text \<open>
  \<^verbatim>\<open>spawn_child_agent\<close> renames its arguments and calls the same handler.
\<close>

definition spawnChildAgent ::
  "bool \<Rightarrow> registry option \<Rightarrow> string \<Rightarrow> string \<Rightarrow> string \<Rightarrow> tmux_result
    \<Rightarrow> string \<Rightarrow> string \<Rightarrow> string
    \<Rightarrow> (deploy_error + deploy_payload) \<times> effect list" where
  "spawnChildAgent tmuxAvailable regfile clock rnd now tmux parent_agent_id child_agent_type child_prompt =
     deployHeadlessAgent tmuxAvailable regfile clock rnd now tmux
       \<lparr> d_agent_type = child_agent_type, d_prompt = child_prompt, d_parent = parent_agent_id \<rparr>"

section \<open>kill\_real\_agent\<close>

datatype kill_error =
    KillTaskNotFound
  | AgentNotFound string

record kill_payload =
  k_agent_id :: string
  k_tmux_session :: "string option"
  k_session_killed :: bool
  k_reason :: string
  k_status :: string

text \<open>
  \<^verbatim>\<open>find\<close> returns the first entry with the id, and the handler then assigns to that
  object; the loop with \<^verbatim>\<open>break\<close> in \<^verbatim>\<open>update_agent_progress\<close> assigns to the first
  entry with the id as well.
\<close>

fun update_first :: "('a \<Rightarrow> bool) \<Rightarrow> ('a \<Rightarrow> 'a) \<Rightarrow> 'a list \<Rightarrow> 'a list" where
  "update_first P f [] = []"
| "update_first P f (x # xs) = (if P x then f x # xs else x # update_first P f xs)"

text \<open>
  The handler probes the session only when the entry has a non-empty session name, and
  kills it only when the probe finds it. The entry's status, the two termination fields
  and the counter are then written whatever the probe said and whatever the entry's
  status was.
\<close>

definition killRealAgent ::
  "registry option \<Rightarrow> (string \<Rightarrow> bool) \<Rightarrow> (string \<Rightarrow> bool) \<Rightarrow> string \<Rightarrow> string \<Rightarrow> string
    \<Rightarrow> (kill_error + kill_payload) \<times> effect list" where
  "killRealAgent regfile checkTmuxSessionExists killTmuxSession now aid reason =
     (case regfile of
        None \<Rightarrow> (Inl KillTaskNotFound, [])
      | Some reg \<Rightarrow>
          (case find (\<lambda>a. agent_id a = aid) (agents reg) of
             None \<Rightarrow> (Inl (AgentNotFound aid), [])
           | Some ag \<Rightarrow>
               let sessionName = tmux_session ag;
                   found = (case sessionName of
                              None \<Rightarrow> False
                            | Some n \<Rightarrow> n \<noteq> [] \<and> checkTmuxSessionExists n);
                   killed = (case sessionName of
                               None \<Rightarrow> False
                             | Some n \<Rightarrow> found \<and> killTmuxSession n);
                   kills = (case sessionName of
                              None \<Rightarrow> []
                            | Some n \<Rightarrow> if found then [KillSession n] else []);
                   reg' = reg \<lparr> agents :=
                                    update_first (\<lambda>a. agent_id a = aid)
                                      (\<lambda>a. a \<lparr> status := ''terminated'',
                                                terminated_at := Some now,
                                                termination_reason := Some reason \<rparr>)
                                      (agents reg),
                                  active_count := max 0 (active_count reg - 1) \<rparr>
               in (Inr \<lparr> k_agent_id = aid, k_tmux_session = sessionName,
                         k_session_killed = killed, k_reason = reason,
                         k_status = ''terminated'' \<rparr>,
                   kills @ [WriteRegistry reg'])))"

section \<open>update\_agent\_progress and report\_agent\_finding\<close>

record progress_input =
  u_agent_id :: string
  u_status :: string
  u_message :: string
  u_progress :: int


definition progress_entry :: "string \<Rightarrow> progress_input \<Rightarrow> json" where
  "progress_entry now inp =
     JObj [(''timestamp'', JStr now), (''agent_id'', JStr (u_agent_id inp)),
           (''status'', JStr (u_status inp)), (''message'', JStr (u_message inp)),
           (''progress'', JNum (u_progress inp))]"

record agents_summary =
  s_total_spawned :: int
  s_active :: int
  s_completed :: int
  s_agents_list :: "agent list"

definition summary_of :: "registry \<Rightarrow> agents_summary" where
  "summary_of reg =
     \<lparr> s_total_spawned = total_spawned reg, s_active = active_count reg,
       s_completed = completed_count reg, s_agents_list = agents reg \<rparr>"

datatype task_error = TaskMissing

text \<open>
  The handler appends the entry to the agent's progress log, then copies the caller's
  status string and percentage into the first registry entry with the id, and writes the
  registry. It reads and writes no counter.
\<close>

definition updateAgentProgress ::
  "registry option \<Rightarrow> string \<Rightarrow> progress_input
    \<Rightarrow> (task_error + json \<times> agents_summary) \<times> effect list" where
  "updateAgentProgress regfile now inp =
     (case regfile of
        None \<Rightarrow> (Inl TaskMissing, [])
      | Some reg \<Rightarrow>
          let entry = progress_entry now inp;
              reg' = reg \<lparr> agents :=
                               update_first (\<lambda>a. agent_id a = u_agent_id inp)
                                 (\<lambda>a. a \<lparr> last_update := Some now,
                                           status := u_status inp,
                                           progress := u_progress inp \<rparr>)
                                 (agents reg) \<rparr>
          in (Inr (entry, summary_of reg'),
              [AppendLine (u_agent_id inp @ ''_progress.jsonl'') entry, WriteRegistry reg']))"




section \<open>get\_real\_task\_status\<close>

text \<open>
  The reconciliation loop of the handler probes an entry only when its status is
  \<^verbatim>\<open>running\<close> and its session name is non-empty; \<open>session_gone\<close> says that the probe
  was made and found no session.
\<close>

definition session_gone :: "(string \<Rightarrow> bool) \<Rightarrow> agent \<Rightarrow> bool" where
  "session_gone checkTmuxSessionExists a \<longleftrightarrow>
     status a = ''running''
     \<and> (case tmux_session a of
          None \<Rightarrow> False
        | Some n \<Rightarrow> n \<noteq> [] \<and> \<not> checkTmuxSessionExists n)"

text \<open>
  The loop, with the two counters and the \<^verbatim>\<open>changed\<close> flag it carries along.
\<close>

fun reconcile ::
  "(string \<Rightarrow> bool) \<Rightarrow> agent list \<Rightarrow> int \<Rightarrow> int \<Rightarrow> bool \<Rightarrow> agent list \<times> int \<times> int \<times> bool" where
  "reconcile ex [] ac cc changed = ([], ac, cc, changed)"
| "reconcile ex (a # as) ac cc changed =
     (if session_gone ex a
      then (case reconcile ex as (max 0 (ac - 1)) (cc + 1) True of
              (as', rest) \<Rightarrow> (a \<lparr> status := ''completed'' \<rparr> # as', rest))
      else (case reconcile ex as ac cc changed of
              (as', rest) \<Rightarrow> (a # as', rest)))"

record limits =
  l_max_agents :: int
  l_max_concurrent :: int
  l_max_depth :: int

record snapshot =
  n_description :: string
  n_status :: string
  n_agents :: agents_summary
  n_hierarchy :: "(string \<times> string list) list"
  n_limits :: limits

definition or_default :: "int \<Rightarrow> int \<Rightarrow> int" where
  "or_default v d = (if v = 0 then d else v)"

definition snapshot_of :: "registry \<Rightarrow> snapshot" where
  "snapshot_of reg =
     \<lparr> n_description = task_description reg, n_status = task_status reg,
       n_agents = summary_of reg, n_hierarchy = agent_hierarchy reg,
       n_limits = \<lparr> l_max_agents = or_default (max_agents reg) 10,
                    l_max_concurrent = or_default (max_concurrent reg) 5,
                    l_max_depth = or_default (max_depth reg) 3 \<rparr> \<rparr>"

text \<open>
  The handler: reconcile, write the registry if an entry changed, and answer from the
  reconciled registry. The recent progress and finding entries of the answer come from
  \<open>readJsonl\<close> below.
\<close>

definition getRealTaskStatus ::
  "registry option \<Rightarrow> (string \<Rightarrow> bool) \<Rightarrow> (task_error + snapshot) \<times> effect list" where
  "getRealTaskStatus regfile checkTmuxSessionExists =
     (case regfile of
        None \<Rightarrow> (Inl TaskMissing, [])
      | Some reg \<Rightarrow>
          (case reconcile checkTmuxSessionExists (agents reg)
                  (active_count reg) (completed_count reg) False of
             (as', ac, cc, changed) \<Rightarrow>
               let reg' = reg \<lparr> agents := as', active_count := ac, completed_count := cc \<rparr>
               in (Inr (snapshot_of reg'), if changed then [WriteRegistry reg'] else [])))"

section \<open>create\_real\_task and the workspace\<close>

text \<open>
  The three ceilings are read from the environment when a task is created
  (\<^verbatim>\<open>Number(process.env.codex_ORCHESTRATOR_MAX_AGENTS ?? '25')\<close> and its two siblings).
\<close>

record env_limits =
  env_max_agents :: int
  env_max_depth :: int
  env_max_concurrent :: int

definition default_env :: env_limits where
  "default_env = \<lparr> env_max_agents = 25, env_max_depth = 5, env_max_concurrent = 8 \<rparr>"

record global_registry =
  total_tasks :: int
  active_tasks :: int
  total_agents_spawned :: int
  active_agents :: int
  max_concurrent_agents :: int
  tasks :: "string list"
  global_agents :: "string list"

definition initial_global :: "env_limits \<Rightarrow> global_registry" where
  "initial_global env =
     \<lparr> total_tasks = 0, active_tasks = 0, total_agents_spawned = 0, active_agents = 0,
       max_concurrent_agents = env_max_concurrent env, tasks = [], global_agents = [] \<rparr>"

definition new_registry :: "env_limits \<Rightarrow> string \<Rightarrow> string \<Rightarrow> string \<Rightarrow> registry" where
  "new_registry env taskId description prio =
     \<lparr> task_id = taskId, task_description = description, task_status = ''INITIALIZED'',
       priority = prio, agents = [], agent_hierarchy = [(''orchestrator'', [])],
       max_agents = env_max_agents env, max_depth = env_max_depth env,
       max_concurrent = env_max_concurrent env,
       total_spawned = 0, active_count = 0, completed_count = 0 \<rparr>"

text \<open>
  The workspace: the global registry file (\<open>None\<close> before the first task) and the
  registry file of every task, by task id.
\<close>

record world =
  global_file :: "global_registry option"
  task_files :: "(string \<times> registry) list"

fun write_task :: "string \<Rightarrow> registry \<Rightarrow> (string \<times> registry) list \<Rightarrow> (string \<times> registry) list" where
  "write_task k v [] = [(k, v)]"
| "write_task k v ((k', v') # xs) =
     (if k = k' then (k, v) # xs else (k', v') # write_task k v xs)"

definition createRealTask :: "env_limits \<Rightarrow> world \<Rightarrow> string \<Rightarrow> string \<Rightarrow> string \<Rightarrow> world" where
  "createRealTask env w taskId description prio =
     (let g0 = (case global_file w of None \<Rightarrow> initial_global env | Some g \<Rightarrow> g);
          g1 = g0 \<lparr> total_tasks := total_tasks g0 + 1,
                     active_tasks := active_tasks g0 + 1,
                     tasks := (if taskId \<in> set (tasks g0) then tasks g0
                               else tasks g0 @ [taskId]) \<rparr>
      in \<lparr> global_file = Some g1,
           task_files = write_task taskId (new_registry env taskId description prio)
                          (task_files w) \<rparr>)"

text \<open>
  A tool call on a task reads the task's registry file, runs the handler and leaves the
  file as the handler's last write left it. Of all the handlers only
  \<^verbatim>\<open>create_real_task\<close> writes the global registry; the others read it at most to find
  the directory of a task.
\<close>

definition on_task ::
  "world \<Rightarrow> string \<Rightarrow> (registry option \<Rightarrow> 'r \<times> effect list) \<Rightarrow> 'r \<times> effect list \<times> world" where
  "on_task w tid handler =
     (let regfile = map_of (task_files w) tid
      in case handler regfile of
           (resp, effs) \<Rightarrow>
             (resp, effs,
              case persisted regfile effs of
                None \<Rightarrow> w
              | Some r \<Rightarrow> w \<lparr> task_files := write_task tid r (task_files w) \<rparr>))"

text \<open>
  The server with the sessions that tmux holds. A session appears when
  \<^verbatim>\<open>createTmuxSession\<close> succeeds, disappears when it is killed, and may exit on its own
  at any time (\<open>SessionExit\<close>, an event of the outside world). A call names its task
  first; a deploy call then gives the agent type, the random digits of the new id, the
  parent and what \<^verbatim>\<open>createTmuxSession\<close> will answer, a kill call the agent id.
\<close>

record server =
  workspace :: world
  live_sessions :: "string list"

datatype call =
    CreateTask string string
  | Deploy string string string string tmux_result
  | Kill string string
  | Progress string progress_input
  | Status string
  | SessionExit string

datatype reply =
    Created string
  | Deployed "deploy_error + deploy_payload"
  | Killed "kill_error + kill_payload"
  | Updated "task_error + json \<times> agents_summary"
  | Snapshot "task_error + snapshot"
  | Exited

fun sessions_after :: "bool \<Rightarrow> string list \<Rightarrow> effect list \<Rightarrow> string list" where
  "sessions_after ok ss [] = ss"
| "sessions_after ok ss (CreateSession s # es) =
     sessions_after ok (if ok then ss @ [s] else ss) es"
| "sessions_after ok ss (KillSession s # es) = sessions_after ok (removeAll s ss) es"
| "sessions_after ok ss (_ # es) = sessions_after ok ss es"

definition clock0 :: string where
  "clock0 = ''120000''"

definition now0 :: string where
  "now0 = ''2025-09-08T12:00:00.000Z''"

fun step :: "env_limits \<Rightarrow> server \<Rightarrow> call \<Rightarrow> reply \<times> server" where
  "step env sv (CreateTask tid description) =
     (Created tid, sv \<lparr> workspace := createRealTask env (workspace sv) tid description ''P2'' \<rparr>)"
| "step env sv (Deploy tid ty rnd par tmux) =
     (case on_task (workspace sv) tid
             (\<lambda>regfile. deployHeadlessAgent True regfile clock0 rnd now0 tmux
                \<lparr> d_agent_type = ty, d_prompt = ''work'', d_parent = par \<rparr>) of
        (resp, effs, w') \<Rightarrow>
          (Deployed resp,
           \<lparr> workspace = w', live_sessions = sessions_after (success tmux) (live_sessions sv) effs \<rparr>))"
| "step env sv (Kill tid aid) =
     (case on_task (workspace sv) tid
             (\<lambda>regfile. killRealAgent regfile (\<lambda>n. n \<in> set (live_sessions sv)) (\<lambda>n. True)
                now0 aid ''Manual termination'') of
        (resp, effs, w') \<Rightarrow>
          (Killed resp,
           \<lparr> workspace = w', live_sessions = sessions_after True (live_sessions sv) effs \<rparr>))"
| "step env sv (Progress tid inp) =
     (case on_task (workspace sv) tid (\<lambda>regfile. updateAgentProgress regfile now0 inp) of
        (resp, effs, w') \<Rightarrow> (Updated resp, sv \<lparr> workspace := w' \<rparr>))"
| "step env sv (Status tid) =
     (case on_task (workspace sv) tid
             (\<lambda>regfile. getRealTaskStatus regfile (\<lambda>n. n \<in> set (live_sessions sv))) of
        (resp, effs, w') \<Rightarrow> (Snapshot resp, sv \<lparr> workspace := w' \<rparr>))"
| "step env sv (SessionExit s) =
     (Exited, sv \<lparr> live_sessions := removeAll s (live_sessions sv) \<rparr>)"

fun run :: "env_limits \<Rightarrow> server \<Rightarrow> call list \<Rightarrow> reply list \<times> server" where
  "run env sv [] = ([], sv)"
| "run env sv (c # cs) =
     (case step env sv c of
        (r, sv') \<Rightarrow> (case run env sv' cs of (rs, sv'') \<Rightarrow> (r # rs, sv'')))"





section \<open>Spawn rules and hierarchy of the shell toolkit\<close>




section \<open>The ledger: one JSON line per entry\<close>

text \<open>
  Log files are character strings. \<^verbatim>\<open>JSON.stringify\<close> and \<^verbatim>\<open>JSON.parse\<close> are
  built-ins of the JavaScript runtime and are parameters of the model: \<open>stringify\<close>, and
  \<open>parse\<close>, which is \<open>None\<close> where \<^verbatim>\<open>JSON.parse\<close> throws. The white space that
  \<^verbatim>\<open>trim\<close> removes is modelled for the ASCII range.
\<close>

definition newline :: char where
  "newline = CHR 0x0A"

definition is_space :: "char \<Rightarrow> bool" where
  "is_space c \<longleftrightarrow> c \<in> set [CHR 0x09, CHR 0x0A, CHR 0x0B, CHR 0x0C, CHR 0x0D, CHR 0x20]"

definition trim :: "string \<Rightarrow> string" where
  "trim s = rev (dropWhile is_space (rev (dropWhile is_space s)))"

text \<open>
  \<^verbatim>\<open>split('\n')\<close>: the pieces between line feeds, so a text that ends with a line feed
  has an empty last piece, and the empty text has one empty piece.
\<close>

fun split_nl :: "string \<Rightarrow> string list" where
  "split_nl [] = [[]]"
| "split_nl (c # cs) =
     (if c = newline then [] # split_nl cs
      else (case split_nl cs of [] \<Rightarrow> [[c]] | l # ls \<Rightarrow> (c # l) # ls))"



text \<open>
  The body of the reader's loop over the lines of one file: trim, skip the empty line,
  parse, and skip the line where the parse throws.
\<close>

definition read_line :: "(string \<Rightarrow> json option) \<Rightarrow> string \<Rightarrow> json option" where
  "read_line parse line = (let l = trim line in if l = [] then None else parse l)"

definition readJsonlFile :: "(string \<Rightarrow> json option) \<Rightarrow> string \<Rightarrow> json list" where
  "readJsonlFile parse content = List.map_filter (read_line parse) (split_nl content)"

definition endsWith :: "string \<Rightarrow> string \<Rightarrow> bool" where
  "endsWith name suffix \<longleftrightarrow>
     length suffix \<le> length name \<and> drop (length name - length suffix) name = suffix"

text \<open>
  \<open>readJsonl\<close> over a directory: \<open>None\<close> is a directory that cannot be listed, a file
  whose content is \<open>None\<close> cannot be read; both are skipped silently.
\<close>

definition readJsonl ::
  "(string \<Rightarrow> json option) \<Rightarrow> (string \<times> string option) list option \<Rightarrow> string \<Rightarrow> json list" where
  "readJsonl parse dir suffix =
     (case dir of
        None \<Rightarrow> []
      | Some files \<Rightarrow>
          concat (map (\<lambda>(name, content).
                         if endsWith name suffix
                         then (case content of None \<Rightarrow> [] | Some c \<Rightarrow> readJsonlFile parse c)
                         else [])
                      files))"





section \<open>Quantities of the reconciliation pass\<close>

definition gone_count :: "(string \<Rightarrow> bool) \<Rightarrow> registry \<Rightarrow> nat" where
  "gone_count ex reg = length (filter (session_gone ex) (agents reg))"

definition mark_completed :: "(string \<Rightarrow> bool) \<Rightarrow> agent \<Rightarrow> agent" where
  "mark_completed ex a = (if session_gone ex a then a \<lparr> status := ''completed'' \<rparr> else a)"

section \<open>A reference codec for the JSON of ledger entries\<close>

text \<open>
  A printer and a parser for compact JSON over integers, strings, arrays and objects,
  with the escapes of the double quote, the backslash and the line feed. They stand for
  the built-ins where a statement is evaluated on concrete log files.
\<close>

definition dquote :: char where
  "dquote = CHR 0x22"

definition backslash :: char where
  "backslash = CHR 0x5C"







fun parse_chars :: "string \<Rightarrow> string \<Rightarrow> (string \<times> string) option" where
  "parse_chars acc [] = None"
| "parse_chars acc [c] = (if c = dquote then Some (rev acc, []) else None)"
| "parse_chars acc (c # d # cs) =
     (if c = dquote then Some (rev acc, d # cs)
      else if c = backslash
      then (if d = CHR ''n'' then parse_chars (newline # acc) cs
            else if d = dquote \<or> d = backslash then parse_chars (d # acc) cs
            else None)
      else parse_chars (c # acc) (d # cs))"

definition is_digit :: "char \<Rightarrow> bool" where
  "is_digit c \<longleftrightarrow> (48::nat) \<le> of_char c \<and> (of_char c :: nat) \<le> 57"

definition parse_nat :: "string \<Rightarrow> (nat \<times> string) option" where
  "parse_nat s =
     (let ds = takeWhile is_digit s
      in if ds = [] then None
         else Some (foldl (\<lambda>n c. 10 * n + (of_char c - (48::nat))) 0 ds,
                    dropWhile is_digit s))"

fun parse_value :: "nat \<Rightarrow> string \<Rightarrow> (json \<times> string) option"
and parse_elements :: "nat \<Rightarrow> json list \<Rightarrow> string \<Rightarrow> (json \<times> string) option"
and parse_members :: "nat \<Rightarrow> (string \<times> json) list \<Rightarrow> string \<Rightarrow> (json \<times> string) option" where
  "parse_value 0 s = None"
| "parse_value (Suc n) s =
     (if take 4 s = ''null'' then Some (JNull, drop 4 s)
      else if take 4 s = ''true'' then Some (JBool True, drop 4 s)
      else if take 5 s = ''false'' then Some (JBool False, drop 5 s)
      else if take 2 s = ''[]'' then Some (JArr [], drop 2 s)
      else if take 2 s = ''{}'' then Some (JObj [], drop 2 s)
      else if take 1 s = ''['' then parse_elements n [] (drop 1 s)
      else if take 1 s = ''{'' then parse_members n [] (drop 1 s)
      else if take 1 s = [dquote]
      then (case parse_chars [] (drop 1 s) of
              None \<Rightarrow> None
            | Some (str, r) \<Rightarrow> Some (JStr str, r))
      else if take 1 s = ''-''
      then (case parse_nat (drop 1 s) of
              None \<Rightarrow> None
            | Some (m, r) \<Rightarrow> Some (JNum (- int m), r))
      else (case parse_nat s of
              None \<Rightarrow> None
            | Some (m, r) \<Rightarrow> Some (JNum (int m), r)))"
| "parse_elements 0 acc s = None"
| "parse_elements (Suc n) acc s =
     (case parse_value n s of
        None \<Rightarrow> None
      | Some (v, r) \<Rightarrow>
          if take 1 r = '','' then parse_elements n (v # acc) (drop 1 r)
          else if take 1 r = '']'' then Some (JArr (rev (v # acc)), drop 1 r)
          else None)"
| "parse_members 0 acc s = None"
| "parse_members (Suc n) acc s =
     (if take 1 s = [dquote]
      then (case parse_chars [] (drop 1 s) of
              None \<Rightarrow> None
            | Some (k, r) \<Rightarrow>
                if take 1 r = '':''
                then (case parse_value n (drop 1 r) of
                        None \<Rightarrow> None
                      | Some (v, r') \<Rightarrow>
                          if take 1 r' = '','' then parse_members n ((k, v) # acc) (drop 1 r')
                          else if take 1 r' = ''}''
                          then Some (JObj (rev ((k, v) # acc)), drop 1 r')
                          else None)
                else None)
      else None)"


section \<open>Sample inputs\<close>

















definition sample_agent :: "string \<Rightarrow> agent" where
  "sample_agent rnd =
     agentEntry (new_agent_id ''w'' clock0 rnd)
       \<lparr> d_agent_type = ''w'', d_prompt = ''work'', d_parent = ''orchestrator'' \<rparr> 1 now0"

definition sample_registry :: registry where
  "sample_registry =
     (new_registry default_env ''T'' ''demo'' ''P2'')
       \<lparr> agents := [sample_agent ''a1'', sample_agent ''a2''],
         total_spawned := 2, active_count := 2 \<rparr>"




section \<open>Evaluation of concrete runs\<close>


section \<open>Admission: depth, spawn rules and the global ceiling\<close>




section \<open>Terminal statuses and counters\<close>



section \<open>Session creation and the registry\<close>




section \<open>Deploy under an unknown parent\<close>




section \<open>Liveness reconciliation\<close>

lemma reconcile_result:
  "reconcile ex as ac cc ch =
     (map (mark_completed ex) as,
      (if filter (session_gone ex) as = [] then ac
       else max 0 (ac - int (length (filter (session_gone ex) as)))),
      cc + int (length (filter (session_gone ex) as)),
      ch \<or> filter (session_gone ex) as \<noteq> [])"
proof (induction as arbitrary: ac cc ch)
  case Nil
  then show ?case by simp
next
  case (Cons a as)
  show ?case
  proof (cases "session_gone ex a")
    case True
    then show ?thesis
      by (auto simp add: Cons.IH mark_completed_def max_def)
  next
    case False
    then show ?thesis
      by (simp add: Cons.IH mark_completed_def)
  qed
qed

lemma mark_completed_settled: "\<not> session_gone ex (mark_completed ex a)"
  by (simp add: mark_completed_def session_gone_def)

lemma filter_gone_after: "filter (session_gone ex) (map (mark_completed ex) as) = []"
  by (induction as) (simp_all add: mark_completed_settled)

lemma mark_completed_twice: "mark_completed ex \<circ> mark_completed ex = mark_completed ex"
  by (rule ext) (simp add: mark_completed_def session_gone_def)

lemma mark_completed_none:
  "filter (session_gone ex) as = [] \<Longrightarrow> map (mark_completed ex) as = as"
  by (induction as) (auto simp: mark_completed_def split: if_splits)

text \<open>
  C7. A status call on an existing task answers with the snapshot of the reconciled
  registry, which is also what the registry file holds when the call returns. In the
  reconciled registry every agent that was running with a session name whose session
  no longer exists is completed and every other agent is as it was; with \<open>k\<close> such
  agents the active count has gone down by one \<open>k\<close> times, stopping at zero, and the
  completed count is up by \<open>k\<close>; the registry is written exactly when \<open>k\<close> is
  positive. A second status call on the result, with the same sessions, gives the same
  answer and writes nothing.
\<close>

theorem getTaskStatus_reconciles_idempotently:
  assumes run: "getRealTaskStatus (Some reg) ex = (resp, effs)"
  shows "\<exists>reg'. resp = Inr (snapshot_of reg')
          \<and> persisted (Some reg) effs = Some reg'
          \<and> agents reg' = map (mark_completed ex) (agents reg)
          \<and> active_count reg' =
              (if gone_count ex reg = 0 then active_count reg
               else max 0 (active_count reg - int (gone_count ex reg)))
          \<and> completed_count reg' = completed_count reg + int (gone_count ex reg)
          \<and> effs = (if gone_count ex reg = 0 then [] else [WriteRegistry reg'])
          \<and> getRealTaskStatus (Some reg') ex = (resp, [])"
proof -
  let ?k = "gone_count ex reg"
  let ?reg' = "reg \<lparr> agents := map (mark_completed ex) (agents reg),
                     active_count := (if ?k = 0 then active_count reg
                                      else max 0 (active_count reg - int ?k)),
                     completed_count := completed_count reg + int ?k \<rparr>"
  have first: "getRealTaskStatus (Some reg) ex
                 = (Inr (snapshot_of ?reg'), if ?k = 0 then [] else [WriteRegistry ?reg'])"
    by (cases "filter (session_gone ex) (agents reg) = []")
       (simp_all add: getRealTaskStatus_def reconcile_result gone_count_def Let_def)
  have again: "getRealTaskStatus (Some ?reg') ex = (Inr (snapshot_of ?reg'), [])"
    by (simp add: getRealTaskStatus_def reconcile_result filter_gone_after
          mark_completed_twice Let_def)
  have same: "?reg' = reg" if "?k = 0"
  proof -
    from that have "filter (session_gone ex) (agents reg) = []"
      by (simp add: gone_count_def)
    then have "map (mark_completed ex) (agents reg) = agents reg"
      by (rule mark_completed_none)
    with that show ?thesis by simp
  qed
  from run first have r: "resp = Inr (snapshot_of ?reg')"
    and e: "effs = (if ?k = 0 then [] else [WriteRegistry ?reg'])" by simp_all
  have p: "persisted (Some reg) effs = Some ?reg'"
    using e same by (cases "?k = 0") simp_all
  show ?thesis
    apply (rule exI [of _ ?reg'])
    using r e p again by simp
qed

theorem getTaskStatus_reconciles_idempotently_witness:
  "\<exists>reg'. getRealTaskStatus (Some sample_registry) (\<lambda>n. n = ''agent_w-120000-a2'')
             = (Inr (snapshot_of reg'), [WriteRegistry reg'])
         \<and> map status (agents reg') = [''completed'', ''running'']
         \<and> active_count reg' = 1
         \<and> completed_count reg' = 1
         \<and> getRealTaskStatus (Some reg') (\<lambda>n. n = ''agent_w-120000-a2'')
             = (Inr (snapshot_of reg'), [])"
proof -
  let ?ex = "\<lambda>n. n = ''agent_w-120000-a2''"
  have k: "gone_count ?ex sample_registry = 1"
    by (simp add: gone_count_def sample_registry_def sample_agent_def session_gone_def
          agentEntry_def new_agent_id_def clock0_def)
  have m: "map status (map (mark_completed ?ex) (agents sample_registry))
             = [''completed'', ''running'']"
    by (simp add: mark_completed_def sample_registry_def sample_agent_def session_gone_def
          agentEntry_def new_agent_id_def clock0_def)
  have c: "active_count sample_registry = 2" "completed_count sample_registry = 0"
    by (simp_all add: sample_registry_def new_registry_def)
  from getTaskStatus_reconciles_idempotently
         [OF prod.collapse [symmetric], of sample_registry ?ex]
  obtain reg' where
    "getRealTaskStatus (Some sample_registry) ?ex = (Inr (snapshot_of reg'), [WriteRegistry reg'])"
    "agents reg' = map (mark_completed ?ex) (agents sample_registry)"
    "active_count reg' = 1" "completed_count reg' = 1"
    "getRealTaskStatus (Some reg') ?ex = (Inr (snapshot_of reg'), [])"
    using k c by (auto simp: prod_eq_iff)
  with m show ?thesis by auto
qed

section \<open>The hierarchy map\<close>


section \<open>The ledger\<close>
















end
